theory Spec2Isabelle
  imports Main
begin

text \<open>
  A model of \<open>main.go\<close>, a command-line HTTP client in the manner of curl: the flags
  are turned into one request (\<open>parseFlags\<close>, with \<open>guessDataType\<close> and
  \<open>parseSize\<close>), the request is sent, and the body of the response is copied to a
  file or to standard output in pieces of at most 1024 bytes (\<open>main\<close>). The functions
  of \<open>main.go\<close> keep their names. What they call in Go's standard library
  (\<open>strconv\<close>, \<open>encoding/json\<close>, \<open>regexp\<close>, \<open>path\<close>, \<open>os\<close>) is modelled as far as
  their results depend on it. Sending the request and printing it in verbose mode are
  not part of the model: the response is an input.
\<close>

section \<open>Ways the program stops\<close>

text \<open>
  The program has one error policy: a failure is a call of \<open>panic\<close> (or a run-time
  panic of Go itself), which ends the process. Each such exit of the modelled code is a
  constructor of \<open>abort\<close>; a function that can stop the process returns
  \<open>abort + 'a\<close>, with \<open>Inl\<close> for the abort. \<open>ExitHelp\<close> is the one exit with
  status 0, after the help text was written.
\<close>

datatype num_error = ErrSyntax | ErrRange

datatype abort =
    ExitHelp
  | FlagsError
  | NoURL
  | IndexOutOfRange
  | ReadFileError
  | NilMapAssign
  | SizeError num_error
  | OpenError
  | ReadError
  | SliceBounds
  | WriteError

section \<open>Machine integers\<close>

text \<open>
  Go's \<open>int64\<close> (and \<open>int\<close> on a 64-bit target) is modelled as \<open>int\<close> with the
  two's-complement wrap written out: \<open>int64 x\<close> is the value the machine keeps
  of the mathematical result \<open>x\<close>.
\<close>

definition int64 :: "int \<Rightarrow> int" where
  "int64 x = (x + 2 ^ 63) mod 2 ^ 64 - 2 ^ 63"

definition byte_of :: "char \<Rightarrow> nat" where
  "byte_of c = of_char c"

section \<open>strconv.ParseInt, base 10, 64 bits\<close>

text \<open>
  \<open>parseSize\<close> calls \<open>strconv.ParseInt(s, 10, 64)\<close> of Go's standard library, which
  returns a value together with an optional error. \<open>ParseUint_loop\<close> is the digit loop of
  \<open>strconv.ParseUint\<close>: a byte that is not a decimal digit is a syntax error, and
  the loop leaves with a range error as soon as the accumulator would pass
  \<open>2^64 - 1\<close>, before it looks at the bytes that follow.
\<close>

fun ParseUint_loop :: "nat \<Rightarrow> string \<Rightarrow> nat \<times> num_error option" where
  "ParseUint_loop n [] = (n, None)"
| "ParseUint_loop n (c # cs) =
     (if 48 \<le> byte_of c \<and> byte_of c \<le> 57 then
        (if n \<ge> (2 ^ 64 - 1) div 10 + 1 then (2 ^ 64 - 1, Some ErrRange)
         else let n1 = n * 10 + (byte_of c - 48) in
           if n1 > 2 ^ 64 - 1 then (2 ^ 64 - 1, Some ErrRange)
           else ParseUint_loop n1 cs)
      else (0, Some ErrSyntax))"

definition ParseUint :: "string \<Rightarrow> nat \<times> num_error option" where
  "ParseUint s = (if s = [] then (0, Some ErrSyntax) else ParseUint_loop 0 s)"

definition ParseInt :: "string \<Rightarrow> int \<times> num_error option" where
  "ParseInt s =
     (case s of
        [] \<Rightarrow> (0, Some ErrSyntax)
      | c # cs \<Rightarrow>
          let neg = (c = CHR ''-'');
              s1 = (if c = CHR ''+'' \<or> c = CHR ''-'' then cs else s);
              (un, err) = ParseUint s1
          in if err = Some ErrSyntax then (0, err)
             else if \<not> neg \<and> un \<ge> 2 ^ 63 then (2 ^ 63 - 1, Some ErrRange)
             else if neg \<and> un > 2 ^ 63 then (- (2 ^ 63), Some ErrRange)
             else let n = int64 (int un)
                  in (if neg then int64 (- n) else n, None))"

section \<open>parseSize\<close>

text \<open>
  \<open>parseSize\<close> indexes the last byte of its argument before anything else, so the empty
  string is a run-time panic (index out of range), not a returned error. The \<open>switch\<close>
  on the multiplier is Go's: a \<open>case\<close> does not fall through into the next one, so
  the cases \<open>'k'\<close>, \<open>'m'\<close> and \<open>'g'\<close>, whose bodies are empty, leave the number as
  it is. The multiplications are \<open>int64\<close> multiplications and wrap.
\<close>

definition multiply :: "char \<Rightarrow> int \<Rightarrow> int" where
  "multiply multiplier number =
     (if multiplier = CHR ''k'' then number
      else if multiplier = CHR ''K'' then int64 (number * 1024)
      else if multiplier = CHR ''m'' then number
      else if multiplier = CHR ''M'' then int64 (number * (1024 * 1024))
      else if multiplier = CHR ''g'' then number
      else if multiplier = CHR ''G'' then int64 (number * (1024 * 1024 * 1024))
      else number)"

definition parseSize :: "string \<Rightarrow> abort + (int \<times> num_error option)" where
  "parseSize v =
     (if v = [] then Inl IndexOutOfRange
      else if last v \<in> set ''kKmMgG'' then
        (let multiplier = last v;
             (number, err) = ParseInt (butlast v)
         in if err \<noteq> None then Inr (- 1, err)
            else Inr (multiply multiplier number, None))
      else Inr (ParseInt v))"

section \<open>encoding/json: the scanner and the stream decoder\<close>

text \<open>
  \<open>guessDataType\<close> hands the body to \<open>json.NewDecoder(...).Decode\<close> of Go's
  standard library and looks only at whether an error comes back. What decides that is
  the byte-at-a-time scanner of \<open>encoding/json\<close> (a step function, a stack of
  parse states, an error and the flag \<open>endTop\<close>) and the loop \<open>readValue\<close> of the
  decoder that drives it. Both are modelled here state by state. The target of the
  decoding is a \<open>json.RawMessage\<close>, which takes the bytes of any value as they are, so
  \<open>Decode\<close> succeeds exactly when \<open>readValue\<close> does.
\<close>

datatype scan =
    ScanContinue | ScanBeginLiteral | ScanBeginObject | ScanObjectKey
  | ScanObjectValue | ScanEndObject | ScanBeginArray | ScanArrayValue
  | ScanEndArray | ScanSkipSpace | ScanEnd | ScanError

datatype parse_state = ParseObjectKey | ParseObjectValue | ParseArrayValue

datatype step_fn =
    StBeginValueOrEmpty | StBeginValue | StBeginStringOrEmpty | StBeginString
  | StEndValue | StEndTop
  | StInString | StInStringEsc | StInStringEscU | StInStringEscU1
  | StInStringEscU12 | StInStringEscU123
  | StNeg | St1 | St0 | StDot | StDot0 | StE | StESign | StE0
  | StT | StTr | StTru | StF | StFa | StFal | StFals | StN | StNu | StNul
  | StError

record scanner =
  step :: step_fn
  endTop :: bool
  parseState :: "parse_state list"
  err :: bool

definition maxNestingDepth :: nat where
  "maxNestingDepth = 10000"

definition reset :: scanner where
  "reset = \<lparr>step = StBeginValue, endTop = False, parseState = [], err = False\<rparr>"

definition isSpace :: "char \<Rightarrow> bool" where
  "isSpace c = (byte_of c = 32 \<or> byte_of c = 9 \<or> byte_of c = 13 \<or> byte_of c = 10)"

definition isDigit :: "char \<Rightarrow> bool" where
  "isDigit c = (48 \<le> byte_of c \<and> byte_of c \<le> 57)"

definition isDigit19 :: "char \<Rightarrow> bool" where
  "isDigit19 c = (49 \<le> byte_of c \<and> byte_of c \<le> 57)"

definition isHex :: "char \<Rightarrow> bool" where
  "isHex c = (isDigit c \<or> (97 \<le> byte_of c \<and> byte_of c \<le> 102)
                \<or> (65 \<le> byte_of c \<and> byte_of c \<le> 70))"

definition scan_error :: "scanner \<Rightarrow> scan \<times> scanner" where
  "scan_error s = (ScanError, s\<lparr>step := StError, err := True\<rparr>)"

definition goto :: "scanner \<Rightarrow> step_fn \<Rightarrow> scan \<Rightarrow> scan \<times> scanner" where
  "goto s f r = (r, s\<lparr>step := f\<rparr>)"

definition pushParseState :: "scanner \<Rightarrow> parse_state \<Rightarrow> scan \<Rightarrow> scan \<times> scanner" where
  "pushParseState s newParseState successState =
     (let s1 = s\<lparr>parseState := parseState s @ [newParseState]\<rparr>
      in if length (parseState s1) \<le> maxNestingDepth then (successState, s1)
         else scan_error s1)"

definition popParseState :: "scanner \<Rightarrow> scanner" where
  "popParseState s =
     (let s1 = s\<lparr>parseState := butlast (parseState s)\<rparr>
      in if parseState s1 = [] then s1\<lparr>step := StEndTop, endTop := True\<rparr>
         else s1\<lparr>step := StEndValue\<rparr>)"

definition stateEndTop :: "scanner \<Rightarrow> char \<Rightarrow> scan \<times> scanner" where
  \<comment> \<open>a byte that is not a space is complained about on the next call: the result is
      \<open>scanEnd\<close> either way\<close>
  "stateEndTop s c =
     (if \<not> isSpace c then (ScanEnd, snd (scan_error s)) else (ScanEnd, s))"

definition stateEndValue :: "scanner \<Rightarrow> char \<Rightarrow> scan \<times> scanner" where
  "stateEndValue s c =
     (if parseState s = [] then stateEndTop (s\<lparr>step := StEndTop, endTop := True\<rparr>) c
      else if isSpace c then goto s StEndValue ScanSkipSpace
      else case last (parseState s) of
        ParseObjectKey \<Rightarrow>
          (if c = CHR '':'' then
             (ScanObjectKey,
              s\<lparr>parseState := butlast (parseState s) @ [ParseObjectValue],
                step := StBeginValue\<rparr>)
           else scan_error s)
      | ParseObjectValue \<Rightarrow>
          (if c = CHR '','' then
             (ScanObjectValue,
              s\<lparr>parseState := butlast (parseState s) @ [ParseObjectKey],
                step := StBeginString\<rparr>)
           else if c = CHR ''}'' then (ScanEndObject, popParseState s)
           else scan_error s)
      | ParseArrayValue \<Rightarrow>
          (if c = CHR '','' then goto s StBeginValue ScanArrayValue
           else if c = CHR '']'' then (ScanEndArray, popParseState s)
           else scan_error s))"

definition stateBeginValue :: "scanner \<Rightarrow> char \<Rightarrow> scan \<times> scanner" where
  "stateBeginValue s c =
     (if isSpace c then (ScanSkipSpace, s)
      else if c = CHR ''{'' then
        pushParseState (s\<lparr>step := StBeginStringOrEmpty\<rparr>) ParseObjectKey ScanBeginObject
      else if c = CHR ''['' then
        pushParseState (s\<lparr>step := StBeginValueOrEmpty\<rparr>) ParseArrayValue ScanBeginArray
      else if c = CHR 0x22 then goto s StInString ScanBeginLiteral
      else if c = CHR ''-'' then goto s StNeg ScanBeginLiteral
      else if c = CHR ''0'' then goto s St0 ScanBeginLiteral
      else if c = CHR ''t'' then goto s StT ScanBeginLiteral
      else if c = CHR ''f'' then goto s StF ScanBeginLiteral
      else if c = CHR ''n'' then goto s StN ScanBeginLiteral
      else if isDigit19 c then goto s St1 ScanBeginLiteral
      else scan_error s)"

definition stateBeginValueOrEmpty :: "scanner \<Rightarrow> char \<Rightarrow> scan \<times> scanner" where
  "stateBeginValueOrEmpty s c =
     (if isSpace c then (ScanSkipSpace, s)
      else if c = CHR '']'' then stateEndValue s c
      else stateBeginValue s c)"

definition stateBeginString :: "scanner \<Rightarrow> char \<Rightarrow> scan \<times> scanner" where
  "stateBeginString s c =
     (if isSpace c then (ScanSkipSpace, s)
      else if c = CHR 0x22 then goto s StInString ScanBeginLiteral
      else scan_error s)"

definition stateBeginStringOrEmpty :: "scanner \<Rightarrow> char \<Rightarrow> scan \<times> scanner" where
  "stateBeginStringOrEmpty s c =
     (if isSpace c then (ScanSkipSpace, s)
      else if c = CHR ''}'' then
        stateEndValue (s\<lparr>parseState := butlast (parseState s) @ [ParseObjectValue]\<rparr>) c
      else stateBeginString s c)"

definition stateInString :: "scanner \<Rightarrow> char \<Rightarrow> scan \<times> scanner" where
  "stateInString s c =
     (if c = CHR 0x22 then goto s StEndValue ScanContinue
      else if c = CHR 0x5C then goto s StInStringEsc ScanContinue
      else if byte_of c < 32 then scan_error s
      else (ScanContinue, s))"

definition stateInStringEsc :: "scanner \<Rightarrow> char \<Rightarrow> scan \<times> scanner" where
  "stateInStringEsc s c =
     (if c \<in> set [CHR ''b'', CHR ''f'', CHR ''n'', CHR ''r'', CHR ''t'',
                    CHR 0x5C, CHR ''/'', CHR 0x22]
      then goto s StInString ScanContinue
      else if c = CHR ''u'' then goto s StInStringEscU ScanContinue
      else scan_error s)"

definition stateHex :: "step_fn \<Rightarrow> scanner \<Rightarrow> char \<Rightarrow> scan \<times> scanner" where
  \<comment> \<open>the four states after \<open>\u\<close>: a hexadecimal digit moves to the next one\<close>
  "stateHex next s c = (if isHex c then goto s next ScanContinue else scan_error s)"

definition stateNeg :: "scanner \<Rightarrow> char \<Rightarrow> scan \<times> scanner" where
  "stateNeg s c =
     (if c = CHR ''0'' then goto s St0 ScanContinue
      else if isDigit19 c then goto s St1 ScanContinue
      else scan_error s)"

definition state0 :: "scanner \<Rightarrow> char \<Rightarrow> scan \<times> scanner" where
  "state0 s c =
     (if c = CHR ''.'' then goto s StDot ScanContinue
      else if c = CHR ''e'' \<or> c = CHR ''E'' then goto s StE ScanContinue
      else stateEndValue s c)"

definition state1 :: "scanner \<Rightarrow> char \<Rightarrow> scan \<times> scanner" where
  "state1 s c = (if isDigit c then goto s St1 ScanContinue else state0 s c)"

definition stateDot :: "scanner \<Rightarrow> char \<Rightarrow> scan \<times> scanner" where
  "stateDot s c = (if isDigit c then goto s StDot0 ScanContinue else scan_error s)"

definition stateDot0 :: "scanner \<Rightarrow> char \<Rightarrow> scan \<times> scanner" where
  "stateDot0 s c =
     (if isDigit c then (ScanContinue, s)
      else if c = CHR ''e'' \<or> c = CHR ''E'' then goto s StE ScanContinue
      else stateEndValue s c)"

definition stateESign :: "scanner \<Rightarrow> char \<Rightarrow> scan \<times> scanner" where
  "stateESign s c = (if isDigit c then goto s StE0 ScanContinue else scan_error s)"

definition stateE :: "scanner \<Rightarrow> char \<Rightarrow> scan \<times> scanner" where
  "stateE s c =
     (if c = CHR ''+'' \<or> c = CHR ''-'' then goto s StESign ScanContinue
      else stateESign s c)"

definition stateE0 :: "scanner \<Rightarrow> char \<Rightarrow> scan \<times> scanner" where
  "stateE0 s c = (if isDigit c then (ScanContinue, s) else stateEndValue s c)"

definition stateLetter :: "char \<Rightarrow> step_fn \<Rightarrow> scanner \<Rightarrow> char \<Rightarrow> scan \<times> scanner" where
  \<comment> \<open>the states inside \<open>true\<close>, \<open>false\<close> and \<open>null\<close>: one expected letter each\<close>
  "stateLetter expected next s c =
     (if c = expected then goto s next ScanContinue else scan_error s)"

definition scan_step :: "scanner \<Rightarrow> char \<Rightarrow> scan \<times> scanner" where
  \<comment> \<open>\<open>s.step(s, c)\<close>: the call through the function value the scanner holds\<close>
  "scan_step s c =
     (case step s of
        StBeginValueOrEmpty \<Rightarrow> stateBeginValueOrEmpty s c
      | StBeginValue \<Rightarrow> stateBeginValue s c
      | StBeginStringOrEmpty \<Rightarrow> stateBeginStringOrEmpty s c
      | StBeginString \<Rightarrow> stateBeginString s c
      | StEndValue \<Rightarrow> stateEndValue s c
      | StEndTop \<Rightarrow> stateEndTop s c
      | StInString \<Rightarrow> stateInString s c
      | StInStringEsc \<Rightarrow> stateInStringEsc s c
      | StInStringEscU \<Rightarrow> stateHex StInStringEscU1 s c
      | StInStringEscU1 \<Rightarrow> stateHex StInStringEscU12 s c
      | StInStringEscU12 \<Rightarrow> stateHex StInStringEscU123 s c
      | StInStringEscU123 \<Rightarrow> stateHex StInString s c
      | StNeg \<Rightarrow> stateNeg s c
      | St1 \<Rightarrow> state1 s c
      | St0 \<Rightarrow> state0 s c
      | StDot \<Rightarrow> stateDot s c
      | StDot0 \<Rightarrow> stateDot0 s c
      | StE \<Rightarrow> stateE s c
      | StESign \<Rightarrow> stateESign s c
      | StE0 \<Rightarrow> stateE0 s c
      | StT \<Rightarrow> stateLetter (CHR ''r'') StTr s c
      | StTr \<Rightarrow> stateLetter (CHR ''u'') StTru s c
      | StTru \<Rightarrow> stateLetter (CHR ''e'') StEndValue s c
      | StF \<Rightarrow> stateLetter (CHR ''a'') StFa s c
      | StFa \<Rightarrow> stateLetter (CHR ''l'') StFal s c
      | StFal \<Rightarrow> stateLetter (CHR ''s'') StFals s c
      | StFals \<Rightarrow> stateLetter (CHR ''e'') StEndValue s c
      | StN \<Rightarrow> stateLetter (CHR ''u'') StNu s c
      | StNu \<Rightarrow> stateLetter (CHR ''l'') StNul s c
      | StNul \<Rightarrow> stateLetter (CHR ''l'') StEndValue s c
      | StError \<Rightarrow> (ScanError, s))"

definition eof :: "scanner \<Rightarrow> scan" where
  "eof s =
     (if err s then ScanError
      else if endTop s then ScanEnd
      else if endTop (snd (scan_step s (CHR '' ''))) then ScanEnd
      else ScanError)"

text \<open>
  \<open>checkValid\<close> is \<open>json.Valid\<close>: every byte of the input is scanned and the input
  must end where the one top-level value ends. It is the library's own reading of
  "the string is a single JSON value".
\<close>

fun checkValid_from :: "scanner \<Rightarrow> string \<Rightarrow> bool" where
  "checkValid_from s [] = (eof s \<noteq> ScanError)"
| "checkValid_from s (c # cs) =
     (case scan_step s c of
        (r, s1) \<Rightarrow> if r = ScanError then False else checkValid_from s1 cs)"

definition checkValid :: "string \<Rightarrow> bool" where
  "checkValid data = checkValid_from reset data"

text \<open>
  \<open>readValue\<close> is the loop of \<open>Decoder.readValue\<close>: it stops with success at the
  first \<open>scanEnd\<close>, or at the closing bracket of a top-level object or array (where it
  calls \<open>stateEndValue\<close> with an invented space); it fails on \<open>scanError\<close>; at the
  end of the input it feeds one space and succeeds only if that ends the value. The
  bytes after the first value are never looked at.
\<close>

fun readValue :: "scanner \<Rightarrow> string \<Rightarrow> bool" where
  "readValue s [] = (fst (scan_step s (CHR '' '')) = ScanEnd)"
| "readValue s (c # cs) =
     (case scan_step s c of
        (r, s1) \<Rightarrow>
          if r = ScanEnd then True
          else if r = ScanEndObject \<or> r = ScanEndArray then
            (case stateEndValue s1 (CHR '' '') of
               (r2, s2) \<Rightarrow> if r2 = ScanEnd then True else readValue s2 cs)
          else if r = ScanError then False
          else readValue s1 cs)"

definition Decode :: "string \<Rightarrow> bool" where
  \<comment> \<open>\<open>True\<close> when \<open>Decode\<close> returns a nil error\<close>
  "Decode data = readValue reset data"

section \<open>The two regular expressions\<close>

text \<open>
  Both patterns are run by Go's \<open>regexp\<close> package. The functions below are the
  matchers these two patterns denote: \<open>.\<close> is any character but a line feed, \<open>\b\<close>
  is the boundary between an ASCII word character (\<open>[0-9A-Za-z_]\<close>) and anything
  else, the search is not anchored, and of several matches the leftmost is taken, with
  greedy operators taking as much as they can. The matchers work on bytes; every
  position they stop at has an ASCII byte or the end of the text on one side, which is
  a character boundary of UTF-8 as well.
\<close>

definition isWordChar :: "char \<Rightarrow> bool" where
  "isWordChar c =
     (isDigit c \<or> (65 \<le> byte_of c \<and> byte_of c \<le> 90)
       \<or> (97 \<le> byte_of c \<and> byte_of c \<le> 122) \<or> c = CHR ''_'')"

definition wordBoundary :: "char \<Rightarrow> string \<Rightarrow> bool" where
  \<comment> \<open>\<open>\b\<close> between the character just read and the rest of the text\<close>
  "wordBoundary prev rest =
     (isWordChar prev \<noteq> (case rest of [] \<Rightarrow> False | c # _ \<Rightarrow> isWordChar c))"

fun formTail :: "char \<Rightarrow> string \<Rightarrow> bool" where
  \<comment> \<open>\<open>.+?&?\b\<close> after the first character \<open>prev\<close> of \<open>.+?\<close> has been read\<close>
  "formTail prev [] = wordBoundary prev []"
| "formTail prev (c # cs) =
     (wordBoundary prev (c # cs)
      \<or> (c = CHR ''&'' \<and> wordBoundary c cs)
      \<or> (c \<noteq> CHR 0x0A \<and> formTail c cs))"

fun formMatch :: "string \<Rightarrow> bool" where
  \<comment> \<open>\<open>regexp.MustCompile(`.*?=.+?&?\b`).Match\<close>\<close>
  "formMatch [] = False"
| "formMatch (c # cs) =
     ((c = CHR ''='' \<and> (case cs of [] \<Rightarrow> False | d # ds \<Rightarrow> d \<noteq> CHR 0x0A \<and> formTail d ds))
      \<or> formMatch cs)"

fun hasPrefix :: "string \<Rightarrow> string \<Rightarrow> bool" where
  "hasPrefix s [] = True"
| "hasPrefix [] (p # ps) = False"
| "hasPrefix (c # cs) (p # ps) = (c = p \<and> hasPrefix cs ps)"

definition filenameCapture :: "string \<Rightarrow> (string \<times> string) option" where
  \<comment> \<open>\<open>"?(.+)"?\<close> right after an occurrence of \<open>filename=\<close>: the text matched and
      the group. The quote is taken when a character can follow it in the group; the
      group then runs to the end of the line, a closing quote included.\<close>
  "filenameCapture rest =
     (case rest of
        [] \<Rightarrow> None
      | c # cs \<Rightarrow>
          if c = CHR 0x0A then None
          else if c = CHR 0x22 \<and> cs \<noteq> [] \<and> hd cs \<noteq> CHR 0x0A
            then Some (c # takeWhile (\<lambda>x. x \<noteq> CHR 0x0A) cs,
                       takeWhile (\<lambda>x. x \<noteq> CHR 0x0A) cs)
          else Some (takeWhile (\<lambda>x. x \<noteq> CHR 0x0A) rest,
                     takeWhile (\<lambda>x. x \<noteq> CHR 0x0A) rest))"

fun FindStringSubmatch :: "string \<Rightarrow> string list" where
  \<comment> \<open>\<open>regexp.MustCompile(`filename="?(.+)"?`).FindStringSubmatch\<close>: the match and
      its group, or the empty list (Go's nil) when nothing matches\<close>
  "FindStringSubmatch [] = []"
| "FindStringSubmatch (c # cs) =
     (if hasPrefix (c # cs) ''filename='' then
        (case filenameCapture (drop 9 (c # cs)) of
           Some (m, g) \<Rightarrow> [''filename='' @ m, g]
         | None \<Rightarrow> FindStringSubmatch cs)
      else FindStringSubmatch cs)"

section \<open>guessDataType\<close>

definition guessDataType :: "string \<Rightarrow> string \<times> bool" where
  "guessDataType data =
     (if Decode data then (''application/json'', True)
      else if formMatch data then (''application/x-www-form-urlencoded'', True)
      else ('''', False))"

section \<open>Files and output streams\<close>

text \<open>
  What the program touches outside itself is a \<open>world\<close>: the files by name and the
  bytes written to standard output so far. A name can hold a regular file or something
  the system refuses to open or read (a directory, a path without permission). An open
  \<open>*os.File\<close> is a \<open>stream\<close>: standard output, or a file with the offset of the next
  write; a nil \<open>*os.File\<close> is \<open>None\<close>.
\<close>

datatype node = Regular string | NoAccess

record world =
  files :: "string \<rightharpoonup> node"
  stdout :: string

datatype stream = Stdout | FileStream string nat

definition ReadFile :: "world \<Rightarrow> string \<Rightarrow> abort + string" where
  "ReadFile w filename =
     (case files w filename of Some (Regular raw) \<Rightarrow> Inr raw | _ \<Rightarrow> Inl ReadFileError)"

definition OpenFile :: "world \<Rightarrow> string \<Rightarrow> abort + (stream \<times> world)" where
  \<comment> \<open>\<open>os.OpenFile(name, os.O_CREATE|os.O_WRONLY, 0666)\<close>: the file is created when it
      is missing; the flags hold neither \<open>O_TRUNC\<close> nor \<open>O_APPEND\<close>, so an existing
      file keeps its bytes and the first write goes to offset 0\<close>
  "OpenFile w name =
     (if name = [] then Inl OpenError
      else case files w name of
        None \<Rightarrow> Inr (FileStream name 0, w\<lparr>files := (files w)(name \<mapsto> Regular [])\<rparr>)
      | Some (Regular old) \<Rightarrow> Inr (FileStream name 0, w)
      | Some NoAccess \<Rightarrow> Inl OpenError)"

definition pwrite :: "string \<Rightarrow> nat \<Rightarrow> string \<Rightarrow> string" where
  \<comment> \<open>the bytes of a file after \<open>b\<close> is written at offset \<open>off\<close>\<close>
  "pwrite old off b =
     take off old @ replicate (off - length old) (CHR 0x00) @ b @ drop (off + length b) old"

definition Write :: "stream option \<Rightarrow> string \<Rightarrow> world \<Rightarrow> abort + (stream option \<times> world)" where
  "Write f b w =
     (case f of
        None \<Rightarrow> Inl WriteError
      | Some Stdout \<Rightarrow> Inr (Some Stdout, w\<lparr>stdout := stdout w @ b\<rparr>)
      | Some (FileStream name off) \<Rightarrow>
          (case files w name of
             Some (Regular old) \<Rightarrow>
               Inr (Some (FileStream name (off + length b)),
                    w\<lparr>files := (files w)(name \<mapsto> Regular (pwrite old off b))\<rparr>)
           | _ \<Rightarrow> Inl WriteError))"

section \<open>Arguments and parseFlags\<close>

text \<open>
  \<open>Arguments\<close> is the struct of \<open>main.go\<close>, field for field. A \<open>*string\<close> is a
  \<open>string option\<close>. The map \<open>Headers\<close> is a list of key and value pairs with no key
  twice (the order has no meaning), and \<open>None\<close> when the map is nil.
\<close>

record Arguments =
  Data :: "string option"
  PostWithGet :: bool
  OutputFile :: "string option"
  UseRemoteName :: bool
  OutputStream :: "stream option"
  HTTPMethod :: string
  Headers :: "(string \<times> string) list option"
  Information :: bool
  LimitRate :: "string option"
  LimitRateBytes :: int
  URL :: string
  MaxDownload :: "string option"
  MaxDownloadBytes :: int
  Verbose :: "bool list"

text \<open>
  \<open>flags.Parse(&args)\<close> belongs to the flag library: its three outcomes are the input
  of the model (help was written; an error; the struct filled in, with the arguments
  that are no flags).
\<close>

datatype flags_result = WroteHelp | ParseError | Parsed Arguments "string list"

fun Index_found :: "string \<Rightarrow> string \<Rightarrow> bool" where
  \<comment> \<open>\<open>strings.Index(s, substr) >= 0\<close>\<close>
  "Index_found [] substr = (substr = [])"
| "Index_found (c # cs) substr = (hasPrefix (c # cs) substr \<or> Index_found cs substr)"

definition ToUpper :: "string \<Rightarrow> string" where
  \<comment> \<open>\<open>strings.ToUpper\<close> on the ASCII letters. No character outside ASCII has a
      letter of \<open>CONTENT-TYPE\<close> or \<open>CONTENT-LENGTH\<close> as its upper case, so the two
      comparisons of \<open>parseFlags\<close> come out the same.\<close>
  "ToUpper s =
     map (\<lambda>c. if 97 \<le> byte_of c \<and> byte_of c \<le> 122 then char_of (byte_of c - 32) else c) s"

function Itoa :: "nat \<Rightarrow> string" where
  "Itoa i = (if i < 10 then [char_of (48 + i)]
             else Itoa (i div 10) @ [char_of (48 + i mod 10)])"
  by pat_completeness auto
termination
  by (relation "measure id") auto

declare Itoa.simps [simp del]

definition assign :: "(string \<times> string) list option \<Rightarrow> string \<Rightarrow> string
                      \<Rightarrow> abort + (string \<times> string) list option" where
  \<comment> \<open>\<open>m[key] = value\<close>; on a nil map Go panics\<close>
  "assign m key v =
     (case m of
        None \<Rightarrow> Inl NilMapAssign
      | Some h \<Rightarrow> Inr (Some ((key, v) # filter (\<lambda>p. fst p \<noteq> key) h)))"

definition hasKey :: "(string \<times> string) list option \<Rightarrow> string \<Rightarrow> bool" where
  \<comment> \<open>the loop over the keys: some key is \<open>upper\<close> once in upper case\<close>
  "hasKey m upper =
     (case m of None \<Rightarrow> False | Some h \<Rightarrow> list_ex (\<lambda>p. ToUpper (fst p) = upper) h)"

definition determineMethod :: "Arguments \<Rightarrow> Arguments" where
  \<comment> \<open>lines 70 to 79\<close>
  "determineMethod args =
     (if HTTPMethod args = [] then
        (if Information args then args\<lparr>HTTPMethod := ''HEAD''\<rparr>
         else if Data args \<noteq> None \<and> \<not> PostWithGet args then args\<lparr>HTTPMethod := ''POST''\<rparr>
         else args)
      else args\<lparr>HTTPMethod := ''GET''\<rparr>)"

definition loadData :: "world \<Rightarrow> Arguments \<Rightarrow> abort + Arguments" where
  \<comment> \<open>lines 81 to 90; \<open>(*args.Data)[0]\<close> is read with no check of the length\<close>
  "loadData w args =
     (case Data args of
        None \<Rightarrow> Inr args
      | Some [] \<Rightarrow> Inl IndexOutOfRange
      | Some (c # filename) \<Rightarrow>
          if c = CHR ''@'' then
            (case ReadFile w filename of
               Inl e \<Rightarrow> Inl e
             | Inr raw \<Rightarrow> Inr (args\<lparr>Data := Some raw\<rparr>))
          else Inr args)"

definition fillHeaders :: "Arguments \<Rightarrow> abort + Arguments" where
  \<comment> \<open>lines 92 to 117\<close>
  "fillHeaders args =
     (let isContentTypeSpecified = hasKey (Headers args) ''CONTENT-TYPE'';
          isContentLengthSpecified = hasKey (Headers args) ''CONTENT-LENGTH'';
          typed =
            (case Data args of
               None \<Rightarrow> Inr (Headers args)
             | Some d \<Rightarrow>
                 if isContentTypeSpecified then Inr (Headers args)
                 else (case guessDataType d of
                         (contentType, requiresHeader) \<Rightarrow>
                           if requiresHeader
                           then assign (Headers args) ''Content-Type'' contentType
                           else Inr (Headers args)))
      in case typed of
           Inl e \<Rightarrow> Inl e
         | Inr h1 \<Rightarrow>
             (case Data args of
                None \<Rightarrow> Inr (args\<lparr>Headers := h1\<rparr>)
              | Some d \<Rightarrow>
                  if isContentLengthSpecified then Inr (args\<lparr>Headers := h1\<rparr>)
                  else (case assign h1 ''Content-Length'' (Itoa (length d)) of
                          Inl e \<Rightarrow> Inl e
                        | Inr h2 \<Rightarrow> Inr (args\<lparr>Headers := h2\<rparr>))))"

definition parseLimits :: "Arguments \<Rightarrow> abort + Arguments" where
  \<comment> \<open>lines 119 to 131\<close>
  "parseLimits args =
     (let limited =
            (case LimitRate args of
               None \<Rightarrow> Inr args
             | Some v \<Rightarrow>
                 (case parseSize v of
                    Inl e \<Rightarrow> Inl e
                  | Inr (sz, None) \<Rightarrow> Inr (args\<lparr>LimitRateBytes := sz\<rparr>)
                  | Inr (sz, Some e) \<Rightarrow> Inl (SizeError e)))
      in case limited of
           Inl e \<Rightarrow> Inl e
         | Inr args1 \<Rightarrow>
             (case MaxDownload args1 of
                None \<Rightarrow> Inr args1
              | Some v \<Rightarrow>
                  (case parseSize v of
                     Inl e \<Rightarrow> Inl e
                   | Inr (sz, None) \<Rightarrow> Inr (args1\<lparr>MaxDownloadBytes := sz\<rparr>)
                   | Inr (sz, Some e) \<Rightarrow> Inl (SizeError e))))"

definition parseFlags :: "world \<Rightarrow> flags_result \<Rightarrow> abort + Arguments" where
  "parseFlags w parsed =
     (case parsed of
        WroteHelp \<Rightarrow> Inl ExitHelp
      | ParseError \<Rightarrow> Inl FlagsError
      | Parsed args0 unused \<Rightarrow>
          (case unused of
             [] \<Rightarrow> Inl NoURL
           | u # _ \<Rightarrow>
               (let args1 = args0\<lparr>URL := u\<rparr>;
                    args2 = (if \<not> Index_found (URL args1) ''://''
                             then args1\<lparr>URL := ''http://'' @ URL args1\<rparr> else args1);
                    args3 = determineMethod args2
                in case loadData w args3 of
                     Inl e \<Rightarrow> Inl e
                   | Inr args4 \<Rightarrow>
                       (case fillHeaders args4 of
                          Inl e \<Rightarrow> Inl e
                        | Inr args5 \<Rightarrow> parseLimits args5))))"

section \<open>The response: where the output goes\<close>

text \<open>
  Of the response \<open>main\<close> reads the header \<open>Content-Disposition\<close> and the body. The
  body is an \<open>io.Reader\<close>: each call of \<open>Read\<close> gives some bytes (at most the length
  of the buffer) and possibly an error, \<open>io.EOF\<close> or another one. A body is the list
  of what its calls of \<open>Read\<close> give, in order; once the list is used up the reader is at
  its end and gives no bytes and \<open>io.EOF\<close>.
\<close>

datatype read_error = EOF | ReadFailure

type_synonym reads = "(string \<times> read_error option) list"

record Response =
  Header :: "(string \<times> string) list"
  Body :: reads

definition Header_Get :: "(string \<times> string) list \<Rightarrow> string \<Rightarrow> string" where
  "Header_Get h key = (case map_of h key of None \<Rightarrow> [] | Some v \<Rightarrow> v)"

definition Base :: "string \<Rightarrow> string" where
  \<comment> \<open>\<open>path.Base\<close>: the text after the last slash, trailing slashes apart\<close>
  "Base p =
     (if p = [] then ''.''
      else let p1 = rev (dropWhile (\<lambda>c. c = CHR ''/'') (rev p));
               p2 = rev (takeWhile (\<lambda>c. c \<noteq> CHR ''/'') (rev p1))
           in if p2 = [] then ''/'' else p2)"

definition resolveOutput :: "Arguments \<Rightarrow> Response \<Rightarrow> Arguments" where
  \<comment> \<open>lines 187 to 204\<close>
  "resolveOutput args res =
     (if OutputFile args = None then
        (if UseRemoteName args then
           (let disposition = Header_Get (Header res) ''Content-Disposition''
            in if disposition \<noteq> [] then
                 (let matches = FindStringSubmatch disposition
                  in if length matches \<ge> 2 then args\<lparr>OutputFile := Some (matches ! 1)\<rparr>
                     else args)
               else args\<lparr>OutputFile := Some (Base (URL args))\<rparr>)
         else args\<lparr>OutputStream := Some Stdout\<rparr>)
      else args)"

definition openOutput :: "Arguments \<Rightarrow> world \<Rightarrow> abort + (Arguments \<times> world)" where
  \<comment> \<open>lines 205 to 211\<close>
  "openOutput args w =
     (case OutputFile args of
        None \<Rightarrow> Inr (args, w)
      | Some name \<Rightarrow>
          (case OpenFile w name of
             Inl e \<Rightarrow> Inl e
           | Inr (f, w1) \<Rightarrow> Inr (args\<lparr>OutputStream := Some f\<rparr>, w1)))"

section \<open>The streaming loop\<close>

text \<open>
  The variables of the loop of \<open>main\<close> (lines 214 to 236): the buffer, \<open>n\<close>, \<open>total\<close>,
  the stream \<open>args.OutputStream\<close> and the world it writes to. \<open>Read\<close> puts its bytes at
  the front of the buffer and leaves the rest of the buffer as it was. \<open>buffer[:n]\<close>
  panics when \<open>n\<close> is negative or beyond the buffer.
\<close>

record transfer =
  buffer :: string
  nbytes :: int
  total_bytes :: int
  ostream :: "stream option"
  env :: world

definition iteration :: "Arguments \<Rightarrow> string \<times> read_error option \<Rightarrow> transfer
                         \<Rightarrow> abort + (transfer \<times> bool)" where
  \<comment> \<open>one pass through the body of the loop; the flag says that the loop ends\<close>
  "iteration args rd st =
     (case rd of
        (chunk, err0) \<Rightarrow>
          let buffer1 = chunk @ drop (length chunk) (buffer st);
              n0 = int (length chunk)
          in if err0 = Some ReadFailure then Inl ReadError
             else
               let limited = (MaxDownload args \<noteq> None
                               \<and> int64 (total_bytes st + n0) \<ge> MaxDownloadBytes args);
                   n1 = (if limited then int64 (MaxDownloadBytes args - total_bytes st) else n0);
                   err1 = (if limited then Some EOF else err0);
                   total1 = int64 (total_bytes st + n1)
               in if n1 < 0 \<or> int (length buffer1) < n1 then Inl SliceBounds
                  else case Write (ostream st) (take (nat n1) buffer1) (env st) of
                         Inl e \<Rightarrow> Inl e
                       | Inr (f, w) \<Rightarrow>
                           Inr (st\<lparr>buffer := buffer1, nbytes := n1, total_bytes := total1,
                                   ostream := f, env := w\<rparr>,
                                err1 = Some EOF))"

fun stream_trace :: "Arguments \<Rightarrow> reads \<Rightarrow> transfer \<Rightarrow> transfer list \<times> abort option" where
  \<comment> \<open>the loop: the variables after each pass, and the panic that ended it, if one did\<close>
  "stream_trace args [] st =
     (case iteration args ([], Some EOF) st of
        Inl e \<Rightarrow> ([], Some e)
      | Inr (st1, _) \<Rightarrow> ([st1], None))"
| "stream_trace args (rd # rds) st =
     (case iteration args rd st of
        Inl e \<Rightarrow> ([], Some e)
      | Inr (st1, stop) \<Rightarrow>
          if stop then ([st1], None)
          else (case stream_trace args rds st1 of (sts, r) \<Rightarrow> (st1 # sts, r)))"

definition stream_loop :: "Arguments \<Rightarrow> reads \<Rightarrow> transfer \<Rightarrow> abort + transfer" where
  "stream_loop args rds st =
     (case stream_trace args rds st of
        (sts, Some e) \<Rightarrow> Inl e
      | (sts, None) \<Rightarrow> Inr (last sts))"

definition initial :: "Arguments \<Rightarrow> world \<Rightarrow> transfer" where
  \<comment> \<open>\<open>buffer := make([]byte, 1024)\<close>, \<open>n\<close> and \<open>total\<close> zero\<close>
  "initial args w =
     \<lparr>buffer = replicate 1024 (CHR 0x00), nbytes = 0, total_bytes = 0,
      ostream = OutputStream args, env = w\<rparr>"

definition respond :: "Arguments \<Rightarrow> Response \<Rightarrow> world \<Rightarrow> abort + world" where
  \<comment> \<open>\<open>main\<close> from line 186 on: the output is resolved and opened, the body is copied\<close>
  "respond args res w =
     (case openOutput (resolveOutput args res) w of
        Inl e \<Rightarrow> Inl e
      | Inr (args1, w1) \<Rightarrow>
          (case stream_loop args1 (Body res) (initial args1 w1) of
             Inl e \<Rightarrow> Inl e
           | Inr st \<Rightarrow> Inr (env st)))"



text \<open>
  Two notions about a body, used to state what the loop does: the bytes a reader hands
  out up to its first \<open>io.EOF\<close>, and the readers the loop can drain (no call gives
  more bytes than the buffer holds, as \<open>io.Reader\<close> demands, and no call fails).
\<close>

fun delivered :: "reads \<Rightarrow> string" where
  "delivered [] = []"
| "delivered ((chunk, e) # rds) = chunk @ (if e = Some EOF then [] else delivered rds)"

definition fits_buffer :: "reads \<Rightarrow> bool" where
  "fits_buffer rds = list_all (\<lambda>rd. length (fst rd) \<le> 1024) rds"

definition never_fails :: "reads \<Rightarrow> bool" where
  "never_fails rds = list_all (\<lambda>rd. snd rd \<noteq> Some ReadFailure) rds"

text \<open>
  The scanner keeps \<open>endTop\<close> in step with its step function: once the top-level
  value has ended and no error has been recorded, the step function is \<open>stateEndTop\<close>.
  Every scanner reached from \<open>reset\<close> is of this kind.
\<close>

definition scanner_ok :: "scanner \<Rightarrow> bool" where
  "scanner_ok s = (if endTop s \<and> \<not> err s then step s = StEndTop else True)"

section \<open>Concrete inputs\<close>

text \<open>
  The struct as \<open>flags.Parse\<close> leaves it when no flag is given, and a world with no
  file and nothing written yet.
\<close>

definition no_flags :: Arguments where
  "no_flags =
     \<lparr>Data = None, PostWithGet = False, OutputFile = None, UseRemoteName = False,
      OutputStream = None, HTTPMethod = [], Headers = Some [], Information = False,
      LimitRate = None, LimitRateBytes = 0, URL = [], MaxDownload = None,
      MaxDownloadBytes = 0, Verbose = []\<rparr>"

definition empty_world :: world where
  "empty_world = \<lparr>files = Map.empty, stdout = []\<rparr>"

section \<open>Size strings\<close>

lemmas size_defs = parseSize_def ParseInt_def ParseUint_def multiply_def int64_def byte_of_def

text \<open>
  Claim C6 lists six vectors of \<open>parseSize\<close> and wants an error for the empty string.
  Five come out as listed: \<open>11K\<close> is 11264, \<open>5M\<close> is 5242880, \<open>2G\<close> is
  2147483648 and \<open>100\<close> is 100, each with no error, and \<open>abcK\<close> comes back with
  \<open>-1\<close> and a syntax error. For the empty string nothing comes back: the index into
  its last byte is out of range and the process panics inside \<open>parseSize\<close>.
\<close>

theorem parseSize_vectors:
  "parseSize ''11K'' = Inr (11264, None)
   \<and> parseSize ''5M'' = Inr (5242880, None)
   \<and> parseSize ''2G'' = Inr (2147483648, None)
   \<and> parseSize ''100'' = Inr (100, None)
   \<and> parseSize [] = Inl IndexOutOfRange
   \<and> parseSize ''abcK'' = Inr (- 1, Some ErrSyntax)"
  by (simp add: size_defs)

text \<open>
  Claim C3 says that a lower-case suffix multiplies like its upper-case form. The code
  does not do that: the cases \<open>'k'\<close>, \<open>'m'\<close> and \<open>'g'\<close> of the \<open>switch\<close> are empty and
  Go does not fall through, so a lower-case suffix is dropped and the number is left
  unscaled. \<open>1k\<close> is 1 byte where \<open>1K\<close> is 1024, and likewise for \<open>m\<close> and \<open>g\<close>.
\<close>

theorem parseSize_lower_case_suffix_unscaled:
  "parseSize ''1k'' = Inr (1, None) \<and> parseSize ''1K'' = Inr (1024, None)
   \<and> parseSize ''1m'' = Inr (1, None) \<and> parseSize ''1M'' = Inr (1048576, None)
   \<and> parseSize ''1g'' = Inr (1, None) \<and> parseSize ''1G'' = Inr (1073741824, None)
   \<and> multiply (CHR ''k'') number = number
   \<and> multiply (CHR ''m'') number = number
   \<and> multiply (CHR ''g'') number = number"
  by (simp add: size_defs)

section \<open>The request method\<close>

text \<open>
  Claim C1 says that a method given with \<open>-X\<close> is the method of the request. The code
  has the two branches the other way round: the inference runs when no method is given,
  and a method that is given is overwritten with \<open>GET\<close>. With \<open>-X DELETE\<close> the
  arguments that \<open>main\<close> builds the request from hold \<open>GET\<close>; the same happens to
  every non-empty method.
\<close>

theorem explicit_method_overwritten_with_GET:
  "parseFlags empty_world
     (Parsed (no_flags\<lparr>HTTPMethod := ''DELETE''\<rparr>) [''http://example.com/''])
   = Inr (no_flags\<lparr>HTTPMethod := ''GET'', URL := ''http://example.com/''\<rparr>)
   \<and> HTTPMethod (determineMethod (args\<lparr>HTTPMethod := c # cs\<rparr>)) = ''GET''"
  by (simp add: parseFlags_def no_flags_def determineMethod_def loadData_def
      fillHeaders_def parseLimits_def hasKey_def)

section \<open>The output file\<close>

text \<open>
  Claim C4 says that with \<open>-O\<close> the name falls back to the last segment of the URL
  whenever no name comes out of \<open>Content-Disposition\<close>. The code falls back only when
  the header is absent or empty. With a header that is there and holds no
  \<open>filename=\<close> (here \<open>attachment\<close>) no name and no stream are set, and the first write
  of the loop goes to a nil file and panics. The last conjunct is the sibling path: with
  no header the same request is written to \<open>b.txt\<close>.
\<close>

theorem disposition_without_filename_has_no_fallback:
  "resolveOutput
     (no_flags\<lparr>UseRemoteName := True, URL := ''http://example.com/a/b.txt''\<rparr>)
     \<lparr>Header = [(''Content-Disposition'', ''attachment'')], Body = [(''new'', Some EOF)]\<rparr>
   = no_flags\<lparr>UseRemoteName := True, URL := ''http://example.com/a/b.txt''\<rparr>
   \<and> respond
     (no_flags\<lparr>UseRemoteName := True, URL := ''http://example.com/a/b.txt''\<rparr>)
     \<lparr>Header = [(''Content-Disposition'', ''attachment'')], Body = [(''new'', Some EOF)]\<rparr>
     empty_world
   = Inl WriteError
   \<and> respond
     (no_flags\<lparr>UseRemoteName := True, URL := ''http://example.com/a/b.txt''\<rparr>)
     \<lparr>Header = [], Body = [(''new'', Some EOF)]\<rparr>
     empty_world
   = Inr (empty_world\<lparr>files := [''b.txt'' \<mapsto> Regular ''new'']\<rparr>)"
  by (simp add: respond_def resolveOutput_def openOutput_def OpenFile_def stream_loop_def
      iteration_def initial_def Write_def pwrite_def no_flags_def empty_world_def
      Header_Get_def Base_def)

text \<open>
  Claim C8 says that the output file is truncated when it is opened. The flags of
  \<open>os.OpenFile\<close> are \<open>O_CREATE|O_WRONLY\<close> with no \<open>O_TRUNC\<close>: a file that exists
  keeps its bytes, the response is written over its beginning, and what the old file
  had beyond the length of the response stays. A response \<open>new\<close> written to a file
  holding \<open>OLDOLDOLD\<close> leaves \<open>newOLDOLD\<close>.
\<close>

theorem existing_output_file_keeps_its_tail:
  "respond (no_flags\<lparr>OutputFile := Some ''out.txt''\<rparr>)
     \<lparr>Header = [], Body = [(''new'', Some EOF)]\<rparr>
     (empty_world\<lparr>files := [''out.txt'' \<mapsto> Regular ''OLDOLDOLD'']\<rparr>)
   = Inr (empty_world\<lparr>files := [''out.txt'' \<mapsto> Regular ''newOLDOLD'']\<rparr>)"
  by (simp add: respond_def resolveOutput_def openOutput_def OpenFile_def stream_loop_def
      iteration_def initial_def Write_def pwrite_def no_flags_def empty_world_def)

section \<open>An empty body\<close>

lemma determineMethod_Data: "Data (determineMethod args) = Data args"
  by (simp add: determineMethod_def)

text \<open>
  Claim C9. When \<open>-d\<close> is given the empty string, \<open>parseFlags\<close> reads byte 0 of the
  body to look for \<open>@\<close> with no check of the length: the index is out of range and
  the process panics there, before any request is built (without a URL it has stopped
  even earlier, for the missing URL).
\<close>

theorem empty_data_stops_parseFlags:
  "Data args = Some [] \<Longrightarrow>
   parseFlags w (Parsed args unused)
     = (if unused = [] then Inl NoURL else Inl IndexOutOfRange)"
  by (cases unused) (simp_all add: parseFlags_def loadData_def determineMethod_Data Let_def)

theorem empty_data_stops_parseFlags_witness:
  "Data (no_flags\<lparr>Data := Some []\<rparr>) = Some []
   \<and> parseFlags empty_world (Parsed (no_flags\<lparr>Data := Some []\<rparr>) [''http://example.com/''])
       = Inl IndexOutOfRange"
  using empty_data_stops_parseFlags
          [of "no_flags\<lparr>Data := Some []\<rparr>" empty_world "[''http://example.com/'']"]
  by simp

section \<open>Content-type inference\<close>

text \<open>
  What \<open>json.Valid\<close> accepts, the stream decoder reads: the decoder runs the same
  scanner over the same bytes and stops no later. The proof follows the two loops
  byte by byte; the scanner states are handled by cases on the step function.
\<close>

lemmas state_defs = stateBeginValueOrEmpty_def stateBeginValue_def stateBeginStringOrEmpty_def
  stateBeginString_def stateInString_def stateInStringEsc_def stateHex_def stateNeg_def
  state1_def state0_def stateDot_def stateDot0_def stateE_def stateESign_def stateE0_def
  stateLetter_def

lemmas end_defs = stateEndValue_def stateEndTop_def popParseState_def pushParseState_def
  scan_error_def goto_def

lemma space_blank: "isSpace (CHR '' '')"
  by (simp add: isSpace_def byte_of_def)

lemma endValue_ok: "stateEndValue s c = (r, s1) \<Longrightarrow> err s \<or> \<not> endTop s \<Longrightarrow> scanner_ok s1"
  by (auto simp: end_defs scanner_ok_def Let_def split: if_splits parse_state.splits)

lemma step_ok: "scan_step s c = (r, s1) \<Longrightarrow> scanner_ok s \<Longrightarrow> scanner_ok s1"
proof (cases "endTop s \<and> \<not> err s")
  case True
  assume "scan_step s c = (r, s1)" "scanner_ok s"
  with True show ?thesis
    by (auto simp: scanner_ok_def scan_step_def end_defs split: if_splits)
next
  case False
  assume a: "scan_step s c = (r, s1)" "scanner_ok s"
  show ?thesis
  proof (cases "step s")
  qed (insert a False, (auto simp: scan_step_def state_defs end_defs scanner_ok_def Let_def
          split: if_splits parse_state.splits)[1])+
qed

lemma blank_ends:
  "\<not> endTop s \<Longrightarrow> endTop (snd (scan_step s (CHR '' ''))) \<Longrightarrow> fst (scan_step s (CHR '' '')) = ScanEnd"
proof (cases "step s")
qed ((auto simp: scan_step_def state_defs end_defs Let_def isSpace_def isDigit_def isDigit19_def
        isHex_def byte_of_def split: if_splits parse_state.splits)[1])+

lemma top_ends:
  "scanner_ok s \<Longrightarrow> endTop s \<Longrightarrow> \<not> err s \<Longrightarrow> fst (scan_step s c) = ScanEnd"
  by (simp add: scanner_ok_def scan_step_def stateEndTop_def)

lemma eof_blank: "scanner_ok s \<Longrightarrow> eof s \<noteq> ScanError \<Longrightarrow> fst (scan_step s (CHR '' '')) = ScanEnd"
  using blank_ends [of s] top_ends [of s "CHR '' ''"]
  by (auto simp: eof_def split: if_splits)

lemma endValue_pops:
  "stateEndValue s c = (r, s1) \<Longrightarrow> r = ScanEndObject \<or> r = ScanEndArray
    \<Longrightarrow> (parseState s1 = [] \<or> step s1 = StEndValue)"
  by (auto simp: end_defs Let_def split: if_splits parse_state.splits)

lemma step_pops:
  "scan_step s c = (r, s1) \<Longrightarrow> r = ScanEndObject \<or> r = ScanEndArray
    \<Longrightarrow> (parseState s1 = [] \<or> step s1 = StEndValue)"
proof (cases "step s")
qed ((auto simp: scan_step_def state_defs scan_error_def goto_def pushParseState_def stateEndTop_def
        Let_def dest: endValue_pops split: if_splits)[1])+

lemma invented_blank:
  assumes "scan_step s c = (r, s1)" and "r = ScanEndObject \<or> r = ScanEndArray"
    and "stateEndValue s1 (CHR '' '') = (r2, s2)"
  shows "r2 = ScanEnd \<or> s2 = s1"
proof (cases "parseState s1 = []")
  case True
  with assms(3) show ?thesis by (auto simp: stateEndValue_def stateEndTop_def split: if_splits)
next
  case False
  with step_pops [OF assms(1,2)] have "step s1 = StEndValue" by simp
  with False assms(3) show ?thesis
    by (cases s1) (auto simp: stateEndValue_def space_blank goto_def)
qed

lemma valid_readValue:
  "scanner_ok s \<Longrightarrow> checkValid_from s v \<Longrightarrow> readValue s v \<and> readValue s (v @ CHR '' '' # rest)"
proof (induction v arbitrary: s)
  case Nil
  then have "fst (scan_step s (CHR '' '')) = ScanEnd" by (simp add: eof_blank)
  then show ?case by (cases "scan_step s (CHR '' '')") simp
next
  case (Cons c v)
  obtain r s1 where st: "scan_step s c = (r, s1)" by (cases "scan_step s c")
  with Cons.prems have r: "r \<noteq> ScanError" and v: "checkValid_from s1 v" by (simp_all split: if_splits)
  from step_ok [OF st Cons.prems(1)] have ok: "scanner_ok s1" .
  note ih = Cons.IH [OF ok v]
  show ?case
  proof (cases "r = ScanEndObject \<or> r = ScanEndArray")
    case True
    obtain r2 s2 where e: "stateEndValue s1 (CHR '' '') = (r2, s2)"
      by (cases "stateEndValue s1 (CHR '' '')")
    from invented_blank [OF st True e] ih st True e show ?thesis by auto
  next
    case False
    with ih st r show ?thesis by simp
  qed
qed

lemma reset_ok: "scanner_ok reset"
  by (simp add: scanner_ok_def reset_def)

lemma valid_Decode: "checkValid v \<Longrightarrow> Decode v \<and> Decode (v @ CHR '' '' # rest)"
  unfolding checkValid_def Decode_def using valid_readValue [OF reset_ok] by blast

lemmas scan_defs = scan_step_def state_defs end_defs isSpace_def isDigit_def isDigit19_def
  isHex_def byte_of_def eof_def reset_def maxNestingDepth_def isWordChar_def wordBoundary_def

text \<open>
  The first part of the claim holds: a string that is a single JSON value is answered
  with \<open>application/json\<close>.
\<close>

lemma valid_json_labelled_json:
  "checkValid data \<Longrightarrow> guessDataType data = (''application/json'', True)"
  using valid_Decode [of data "[]"] by (simp add: guessDataType_def)

text \<open>
  Claim C5 says that a body which does not parse as JSON and matches the
  \<open>key=value\<close> pattern is answered with \<open>application/x-www-form-urlencoded\<close>. The
  code does not do that for a body that begins with a JSON value: \<open>Decode\<close> reads that
  first value, never looks at the bytes after it and returns no error, so the form
  bodies \<open>1=2\<close> and \<open>1 a=b\<close>, neither of them a JSON value and both matching the
  pattern, are answered with \<open>application/json\<close>. The last conjunct is the sibling
  path: the form body \<open>a=b&c=d\<close>, which begins with no JSON value, is answered with
  \<open>application/x-www-form-urlencoded\<close>.
\<close>

theorem form_body_after_json_value_labelled_json:
  "\<not> checkValid ''1=2'' \<and> formMatch ''1=2''
   \<and> guessDataType ''1=2'' = (''application/json'', True)
   \<and> \<not> checkValid ''1 a=b'' \<and> formMatch ''1 a=b''
   \<and> guessDataType ''1 a=b'' = (''application/json'', True)
   \<and> guessDataType ''a=b&c=d'' = (''application/x-www-form-urlencoded'', True)"
  by (simp add: guessDataType_def Decode_def checkValid_def scan_defs)

section \<open>The streaming loop: arithmetic and writes\<close>

text \<open>
  \<open>int64\<close> leaves a value that is in range as it is, always lands in range, and takes
  \<open>2^64\<close> off a value that is one lap too high. Two writes one after the other are one
  write of the two pieces.
\<close>

lemma int64_id: "- (2 ^ 63) \<le> x \<Longrightarrow> x < 2 ^ 63 \<Longrightarrow> int64 x = x"
  by (simp add: int64_def)

lemma int64_range: "- (2 ^ 63) \<le> int64 x \<and> int64 x < 2 ^ 63"
  unfolding int64_def
  using pos_mod_bound [of "2 ^ 64" "x + 2 ^ 63"] pos_mod_sign [of "2 ^ 64" "x + 2 ^ 63"]
  by simp

lemma int64_wrap: "2 ^ 63 \<le> x \<Longrightarrow> x < 2 ^ 63 + 2 ^ 64 \<Longrightarrow> int64 x = x - 2 ^ 64"
proof -
  assume a: "2 ^ 63 \<le> x" "x < 2 ^ 63 + 2 ^ 64"
  define y where "y = x - 2 ^ 63"
  have y: "0 \<le> y" "y < 2 ^ 64" using a by (simp_all add: y_def)
  have "(y + 2 ^ 64) mod 2 ^ 64 = y mod 2 ^ 64" by (rule mod_add_self2)
  also have "\<dots> = y" using y by (rule mod_pos_pos_trivial)
  finally have m: "(y + 2 ^ 64) mod 2 ^ 64 = y" .
  have eq: "x + 2 ^ 63 = y + 2 ^ 64" by (simp add: y_def)
  have "int64 x = (x + 2 ^ 63) mod 2 ^ 64 - 2 ^ 63" by (simp only: int64_def)
  also have "\<dots> = (y + 2 ^ 64) mod 2 ^ 64 - 2 ^ 63" by (simp only: eq)
  also have "\<dots> = y - 2 ^ 63" by (simp only: m)
  also have "\<dots> = x - 2 ^ 64" by (simp add: y_def)
  finally show ?thesis .
qed

lemma pwrite_pwrite: "pwrite (pwrite old off a) (off + length a) b = pwrite old off (a @ b)"
  by (auto simp: pwrite_def min_def ac_simps)

lemma Write_Write:
  "Write f a w = Inr (f1, w1) \<Longrightarrow> Write f1 b w1 = Write f (a @ b) w"
  by (auto simp: Write_def pwrite_pwrite add.assoc split: option.splits stream.splits node.splits)

lemma Write_prefix: "Write f (a @ b) w = Inr r \<Longrightarrow> \<exists>f1 w1. Write f a w = Inr (f1, w1)"
  by (auto simp: Write_def split: option.splits stream.splits node.splits)

section \<open>The streaming loop: one pass\<close>

text \<open>
  What one pass does, case by case: with no limit; with a limit that this read reaches
  (the piece is cut to what is missing and the loop ends); with a limit that this read
  stays below. With a limit, \<open>total\<close> stays at most the limit and \<open>n\<close> within the
  buffer whether or not the addition wraps.
\<close>

lemma iteration_unlimited:
  assumes "MaxDownload args = None" and "length chunk \<le> length (buffer st)"
    and "e \<noteq> Some ReadFailure"
  shows "iteration args (chunk, e) st =
     (case Write (ostream st) chunk (env st) of
        Inl x \<Rightarrow> Inl x
      | Inr (f, w) \<Rightarrow>
          Inr (st\<lparr>buffer := chunk @ drop (length chunk) (buffer st),
                  nbytes := int (length chunk),
                  total_bytes := int64 (total_bytes st + int (length chunk)),
                  ostream := f, env := w\<rparr>, e = Some EOF))"
  using assms by (simp add: iteration_def Let_def)

lemma iteration_clamp:
  assumes lim: "MaxDownload args \<noteq> None"
    and fit: "length chunk \<le> 1024" and buf: "length (buffer st) = 1024"
    and e: "e \<noteq> Some ReadFailure"
    and lo: "0 \<le> total_bytes st" and hi: "total_bytes st \<le> MaxDownloadBytes args"
    and nowrap: "total_bytes st + int (length chunk) < 2 ^ 63"
    and reach: "MaxDownloadBytes args \<le> total_bytes st + int (length chunk)"
  shows "iteration args (chunk, e) st =
     (case Write (ostream st) (take (nat (MaxDownloadBytes args - total_bytes st)) chunk) (env st) of
        Inl x \<Rightarrow> Inl x
      | Inr (f, w) \<Rightarrow>
          Inr (st\<lparr>buffer := chunk @ drop (length chunk) (buffer st),
                  nbytes := MaxDownloadBytes args - total_bytes st,
                  total_bytes := MaxDownloadBytes args,
                  ostream := f, env := w\<rparr>, True))"
proof -
  let ?T = "total_bytes st" and ?m = "MaxDownloadBytes args"
  have s: "int64 (?T + int (length chunk)) = ?T + int (length chunk)"
    using lo nowrap by (intro int64_id) simp_all
  have n1: "int64 (?m - ?T) = ?m - ?T" using hi reach nowrap lo by (intro int64_id) simp_all
  have t1: "int64 ?m = ?m" using hi reach nowrap lo by (intro int64_id) simp_all
  have le: "nat (?m - ?T) \<le> length chunk" using reach by simp
  show ?thesis
    using lim e s n1 t1 le hi reach fit buf
    by (simp add: iteration_def Let_def split: sum.split prod.split)
qed

lemma iteration_pass:
  assumes lim: "MaxDownload args \<noteq> None"
    and fit: "length chunk \<le> 1024" and buf: "length (buffer st) = 1024"
    and e: "e \<noteq> Some ReadFailure"
    and lo: "0 \<le> total_bytes st"
    and below: "total_bytes st + int (length chunk) < MaxDownloadBytes args"
    and nowrap: "total_bytes st + int (length chunk) < 2 ^ 63"
  shows "iteration args (chunk, e) st =
     (case Write (ostream st) chunk (env st) of
        Inl x \<Rightarrow> Inl x
      | Inr (f, w) \<Rightarrow>
          Inr (st\<lparr>buffer := chunk @ drop (length chunk) (buffer st),
                  nbytes := int (length chunk),
                  total_bytes := total_bytes st + int (length chunk),
                  ostream := f, env := w\<rparr>, e = Some EOF))"
proof -
  have s: "int64 (total_bytes st + int (length chunk)) = total_bytes st + int (length chunk)"
    using lo nowrap by (intro int64_id) simp_all
  show ?thesis
    using lim e s below fit buf
    by (simp add: iteration_def Let_def split: sum.split prod.split)
qed

lemma iteration_invariant:
  assumes it: "iteration args (chunk, e) st = Inr (st1, stop)"
    and lim: "MaxDownload args \<noteq> None"
    and fit: "length chunk \<le> 1024" and buf: "length (buffer st) = 1024"
    and lo: "- (2 ^ 63) \<le> total_bytes st" and hi: "total_bytes st \<le> MaxDownloadBytes args"
  shows "total_bytes st1 \<le> MaxDownloadBytes args \<and> - (2 ^ 63) \<le> total_bytes st1
     \<and> 0 \<le> nbytes st1 \<and> nbytes st1 \<le> 1024 \<and> length (buffer st1) = 1024"
proof -
  let ?T = "total_bytes st" and ?m = "MaxDownloadBytes args" and ?n0 = "int (length chunk)"
  have n0: "0 \<le> ?n0" "?n0 \<le> 1024" using fit by simp_all
  show ?thesis
  proof (cases "int64 (?T + ?n0) \<ge> ?m")
    case True
    have nowrap: "?T + ?n0 < 2 ^ 63"
    proof (rule ccontr)
      assume "\<not> ?T + ?n0 < 2 ^ 63"
      then have w: "2 ^ 63 \<le> ?T + ?n0" by simp
      have "?T < 2 ^ 63" using hi True int64_range [of "?T + ?n0"] by linarith
      then have "?T + ?n0 < 2 ^ 63 + 2 ^ 64" using n0 by simp
      from int64_wrap [OF w this] have "int64 (?T + ?n0) < ?T" using n0 by simp
      with True hi show False by linarith
    qed
    then have s: "int64 (?T + ?n0) = ?T + ?n0" using lo n0 by (intro int64_id) simp_all
    then have d: "0 \<le> ?m - ?T" "?m - ?T \<le> ?n0" using True hi by simp_all
    then have n1: "int64 (?m - ?T) = ?m - ?T" using n0 by (intro int64_id) simp_all
    have "?m < 2 ^ 63" using True s nowrap by linarith
    moreover have "- (2 ^ 63) \<le> ?m" using lo hi by linarith
    ultimately have t1: "int64 ?m = ?m" by (intro int64_id) simp_all
    from it True lim n1 t1 d n0 buf fit lo hi show ?thesis
      by (auto simp: iteration_def Let_def split: if_splits sum.splits)
  next
    case False
    from it False lim n0 buf fit int64_range [of "?T + ?n0"] show ?thesis
      by (auto simp: iteration_def Let_def split: if_splits sum.splits)
  qed
qed

lemma iteration_counts:
  assumes it: "iteration args (chunk, e) st = Inr (st1, stop)"
    and lim: "MaxDownload args \<noteq> None"
    and fit: "length chunk \<le> 1024" and buf: "length (buffer st) = 1024"
    and lo: "0 \<le> total_bytes st" and hi: "total_bytes st \<le> MaxDownloadBytes args"
    and nowrap: "total_bytes st + int (length chunk) < 2 ^ 63"
    and out: "ostream st = Some Stdout"
  shows "ostream st1 = Some Stdout \<and> 0 \<le> total_bytes st1
     \<and> total_bytes st1 \<le> total_bytes st + int (length chunk)
     \<and> int (length (stdout (env st1)))
         = int (length (stdout (env st))) + (total_bytes st1 - total_bytes st)"
proof -
  from it have e: "e \<noteq> Some ReadFailure" by (auto simp: iteration_def Let_def)
  show ?thesis
  proof (cases "MaxDownloadBytes args \<le> total_bytes st + int (length chunk)")
    case True
    from it show ?thesis
      unfolding iteration_clamp [OF lim fit buf e lo hi nowrap True]
      using out lo hi True by (auto simp: Write_def)
  next
    case False
    then have below: "total_bytes st + int (length chunk) < MaxDownloadBytes args" by simp
    from it show ?thesis
      unfolding iteration_pass [OF lim fit buf e lo below nowrap]
      using out lo by (auto simp: Write_def)
  qed
qed

section \<open>The streaming loop: all passes\<close>

text \<open>
  By induction on the reads: the effect of the whole loop on the output is the effect
  of one write, of everything delivered when there is no limit and of its first
  \<open>limit - total\<close> bytes when there is one.
\<close>

lemma trace_unlimited:
  assumes "MaxDownload args = None"
  shows "fits_buffer rds \<Longrightarrow> never_fails rds \<Longrightarrow> length (buffer st) = 1024
    \<Longrightarrow> Write (ostream st) (delivered rds) (env st) = Inr (f, w)
    \<Longrightarrow> \<exists>sts. stream_trace args rds st = (sts, None) \<and> sts \<noteq> []
          \<and> ostream (last sts) = f \<and> env (last sts) = w"
proof (induction rds arbitrary: st)
  case Nil
  then show ?case
    using assms by (simp add: iteration_unlimited)
next
  case (Cons rd rds)
  obtain chunk e where rd: "rd = (chunk, e)" by (cases rd)
  from Cons.prems rd have len: "length chunk \<le> length (buffer st)" and e: "e \<noteq> Some ReadFailure"
    and fits: "fits_buffer rds" and nf: "never_fails rds"
    by (simp_all add: fits_buffer_def never_fails_def)
  show ?case
  proof (cases "e = Some EOF")
    case True
    with Cons.prems(4) rd have "Write (ostream st) chunk (env st) = Inr (f, w)" by simp
    with True rd len e assms show ?thesis by (simp add: iteration_unlimited)
  next
    case False
    with Cons.prems(4) rd
    have all: "Write (ostream st) (chunk @ delivered rds) (env st) = Inr (f, w)" by simp
    then obtain f1 w1 where w1: "Write (ostream st) chunk (env st) = Inr (f1, w1)"
      using Write_prefix by blast
    define st1 where "st1 = st\<lparr>buffer := chunk @ drop (length chunk) (buffer st),
                  nbytes := int (length chunk),
                  total_bytes := int64 (total_bytes st + int (length chunk)),
                  ostream := f1, env := w1\<rparr>"
    have it: "iteration args rd st = Inr (st1, False)"
      using False rd len e assms w1 by (simp add: iteration_unlimited st1_def)
    have "Write (ostream st1) (delivered rds) (env st1) = Inr (f, w)"
      using Write_Write [OF w1, of "delivered rds"] all by (simp add: st1_def)
    moreover have "length (buffer st1) = 1024"
      using Cons.prems(3) len by (simp add: st1_def)
    ultimately obtain sts where "stream_trace args rds st1 = (sts, None)" "sts \<noteq> []"
      "ostream (last sts) = f" "env (last sts) = w"
      using Cons.IH [OF fits nf] by blast
    with it show ?thesis by simp
  qed
qed

lemma trace_invariant:
  assumes lim: "MaxDownload args \<noteq> None"
  shows "fits_buffer rds \<Longrightarrow> length (buffer st) = 1024
    \<Longrightarrow> - (2 ^ 63) \<le> total_bytes st \<Longrightarrow> total_bytes st \<le> MaxDownloadBytes args
    \<Longrightarrow> list_all (\<lambda>s. total_bytes s \<le> MaxDownloadBytes args \<and> 0 \<le> nbytes s \<and> nbytes s \<le> 1024)
          (fst (stream_trace args rds st))"
proof (induction rds arbitrary: st)
  case Nil
  show ?case
  proof (cases "iteration args ([], Some EOF) st")
    case (Inl x)
    then show ?thesis by simp
  next
    case (Inr p)
    obtain st1 stop where p: "p = (st1, stop)" by (cases p)
    from iteration_invariant [OF Inr [unfolded p] lim _ Nil.prems(2,3,4)]
    show ?thesis using Inr p by simp
  qed
next
  case (Cons rd rds)
  obtain chunk e where rd: "rd = (chunk, e)" by (cases rd)
  from Cons.prems(1) rd have fit: "length chunk \<le> 1024" and fits: "fits_buffer rds"
    by (simp_all add: fits_buffer_def)
  show ?case
  proof (cases "iteration args rd st")
    case (Inl x)
    then show ?thesis by simp
  next
    case (Inr p)
    obtain st1 stop where p: "p = (st1, stop)" by (cases p)
    note inv = iteration_invariant [OF Inr [unfolded p rd] lim fit Cons.prems(2,3,4)]
    show ?thesis
    proof (cases stop)
      case True
      with Inr p inv show ?thesis by simp
    next
      case False
      from Cons.IH [OF fits, of st1] inv
      have "list_all (\<lambda>s. total_bytes s \<le> MaxDownloadBytes args \<and> 0 \<le> nbytes s \<and> nbytes s \<le> 1024)
          (fst (stream_trace args rds st1))" by simp
      with Inr p inv False show ?thesis
        by (cases "stream_trace args rds st1") simp
    qed
  qed
qed


lemma trace_counts:
  assumes lim: "MaxDownload args \<noteq> None"
  shows "fits_buffer rds \<Longrightarrow> length (buffer st) = 1024
    \<Longrightarrow> 0 \<le> total_bytes st \<Longrightarrow> total_bytes st \<le> MaxDownloadBytes args
    \<Longrightarrow> total_bytes st + int (length (concat (map fst rds))) < 2 ^ 63
    \<Longrightarrow> ostream st = Some Stdout
    \<Longrightarrow> list_all (\<lambda>s. int (length (stdout (env s)))
                        = int (length (stdout (env st))) + (total_bytes s - total_bytes st))
          (fst (stream_trace args rds st))"
proof (induction rds arbitrary: st)
  case Nil
  show ?case
  proof (cases "iteration args ([], Some EOF) st")
    case (Inl x)
    then show ?thesis by simp
  next
    case (Inr p)
    obtain st1 stop where p: "p = (st1, stop)" by (cases p)
    from iteration_counts [OF Inr [unfolded p] lim _ Nil.prems(2,3,4) _ Nil.prems(6)] Nil.prems(5)
    show ?thesis using Inr p by simp
  qed
next
  case (Cons rd rds)
  obtain chunk e where rd: "rd = (chunk, e)" by (cases rd)
  from Cons.prems(1) rd have fit: "length chunk \<le> 1024" and fits: "fits_buffer rds"
    by (simp_all add: fits_buffer_def)
  from Cons.prems(5) rd have nowrap: "total_bytes st + int (length chunk) < 2 ^ 63" by simp
  show ?case
  proof (cases "iteration args rd st")
    case (Inl x)
    then show ?thesis by simp
  next
    case (Inr p)
    obtain st1 stop where p: "p = (st1, stop)" by (cases p)
    note inv = iteration_invariant [OF Inr [unfolded p rd] lim fit Cons.prems(2) _ Cons.prems(4)]
    note cnt = iteration_counts [OF Inr [unfolded p rd] lim fit Cons.prems(2,3,4) nowrap Cons.prems(6)]
    show ?thesis
    proof (cases stop)
      case True
      with Inr p cnt show ?thesis by simp
    next
      case False
      have "total_bytes st1 + int (length (concat (map fst rds))) < 2 ^ 63"
        using cnt Cons.prems(5) rd by simp
      from Cons.IH [OF fits _ _ _ this, of ] inv cnt Cons.prems(3)
      have "list_all (\<lambda>s. int (length (stdout (env s)))
                        = int (length (stdout (env st1))) + (total_bytes s - total_bytes st1))
          (fst (stream_trace args rds st1))" by simp
      then have "list_all (\<lambda>s. int (length (stdout (env s)))
                        = int (length (stdout (env st))) + (total_bytes s - total_bytes st))
          (fst (stream_trace args rds st1))"
        using cnt by (simp add: list_all_iff)
      with Inr p cnt False show ?thesis
        by (cases "stream_trace args rds st1") simp
    qed
  qed
qed




section \<open>The streaming loop: the claims\<close>

text \<open>
  Claim C7. With no maximum download size, a body that is read without a failure is
  copied whole: what the process has written when \<open>main\<close> ends is the bytes the
  reader handed out, in order. On standard output they follow what was there; a file
  named with \<open>-o\<close> that did not exist holds exactly them; a file that did exist has
  them written over its beginning.
\<close>

theorem unlimited_stream_copies_body:
  assumes "MaxDownload args = None" and "fits_buffer (Body res)" and "never_fails (Body res)"
  shows "(OutputFile args = None \<and> \<not> UseRemoteName args
            \<longrightarrow> respond args res w = Inr (w\<lparr>stdout := stdout w @ delivered (Body res)\<rparr>))
       \<and> (OutputFile args = Some name \<and> name \<noteq> [] \<and> files w name = None
            \<longrightarrow> respond args res w
                 = Inr (w\<lparr>files := (files w)(name \<mapsto> Regular (delivered (Body res)))\<rparr>))
       \<and> (OutputFile args = Some name \<and> name \<noteq> [] \<and> files w name = Some (Regular old)
            \<longrightarrow> respond args res w
                 = Inr (w\<lparr>files := (files w)(name \<mapsto>
                          Regular (delivered (Body res)
                                   @ drop (length (delivered (Body res))) old))\<rparr>))"
proof (intro conjI impI)
  assume a: "OutputFile args = None \<and> \<not> UseRemoteName args"
  let ?args1 = "args\<lparr>OutputStream := Some Stdout\<rparr>"
  let ?w1 = "w\<lparr>stdout := stdout w @ delivered (Body res)\<rparr>"
  have o: "openOutput (resolveOutput args res) w = Inr (?args1, w)"
    using a by (simp add: resolveOutput_def openOutput_def)
  have wr: "Write (ostream (initial ?args1 w)) (delivered (Body res)) (env (initial ?args1 w))
          = Inr (Some Stdout, ?w1)"
    by (simp add: initial_def Write_def)
  have m1: "MaxDownload ?args1 = None" using assms(1) by simp
  have b: "length (buffer (initial ?args1 w)) = 1024" by (simp add: initial_def)
  from trace_unlimited [OF m1 assms(2,3) b wr]
  obtain sts where "stream_trace ?args1 (Body res) (initial ?args1 w) = (sts, None)"
    "env (last sts) = ?w1"
    by blast
  then show "respond args res w = Inr ?w1"
    by (simp add: respond_def o stream_loop_def)
next
  assume a: "OutputFile args = Some name \<and> name \<noteq> [] \<and> files w name = None"
  let ?args1 = "args\<lparr>OutputStream := Some (FileStream name 0)\<rparr>"
  let ?w0 = "w\<lparr>files := (files w)(name \<mapsto> Regular [])\<rparr>"
  let ?w1 = "w\<lparr>files := (files w)(name \<mapsto> Regular (delivered (Body res)))\<rparr>"
  have o: "openOutput (resolveOutput args res) w = Inr (?args1, ?w0)"
    using a by (simp add: resolveOutput_def openOutput_def OpenFile_def)
  have wr: "Write (ostream (initial ?args1 ?w0)) (delivered (Body res)) (env (initial ?args1 ?w0))
          = Inr (Some (FileStream name (length (delivered (Body res)))), ?w1)"
    by (simp add: initial_def Write_def pwrite_def)
  have m1: "MaxDownload ?args1 = None" using assms(1) by simp
  have b: "length (buffer (initial ?args1 ?w0)) = 1024" by (simp add: initial_def)
  from trace_unlimited [OF m1 assms(2,3) b wr]
  obtain sts where "stream_trace ?args1 (Body res) (initial ?args1 ?w0) = (sts, None)"
    "env (last sts) = ?w1"
    by blast
  then show "respond args res w = Inr ?w1"
    by (simp add: respond_def o stream_loop_def)
next
  assume a: "OutputFile args = Some name \<and> name \<noteq> [] \<and> files w name = Some (Regular old)"
  let ?args1 = "args\<lparr>OutputStream := Some (FileStream name 0)\<rparr>"
  let ?w1 = "w\<lparr>files := (files w)(name \<mapsto>
               Regular (delivered (Body res) @ drop (length (delivered (Body res))) old))\<rparr>"
  have o: "openOutput (resolveOutput args res) w = Inr (?args1, w)"
    using a by (simp add: resolveOutput_def openOutput_def OpenFile_def)
  have wr: "Write (ostream (initial ?args1 w)) (delivered (Body res)) (env (initial ?args1 w))
          = Inr (Some (FileStream name (length (delivered (Body res)))), ?w1)"
    using a by (simp add: initial_def Write_def pwrite_def)
  have m1: "MaxDownload ?args1 = None" using assms(1) by simp
  have b: "length (buffer (initial ?args1 w)) = 1024" by (simp add: initial_def)
  from trace_unlimited [OF m1 assms(2,3) b wr]
  obtain sts where "stream_trace ?args1 (Body res) (initial ?args1 w) = (sts, None)"
    "env (last sts) = ?w1"
    by blast
  then show "respond args res w = Inr ?w1"
    by (simp add: respond_def o stream_loop_def)
qed

theorem unlimited_stream_copies_body_witness:
  "MaxDownload no_flags = None
   \<and> fits_buffer [(''hello'', None), ('' world'', Some EOF)]
   \<and> never_fails [(''hello'', None), ('' world'', Some EOF)]
   \<and> OutputFile no_flags = None \<and> \<not> UseRemoteName no_flags
   \<and> respond no_flags \<lparr>Header = [], Body = [(''hello'', None), ('' world'', Some EOF)]\<rparr>
         empty_world
       = Inr (empty_world\<lparr>stdout := ''hello world''\<rparr>)
   \<and> respond (no_flags\<lparr>OutputFile := Some ''out.txt''\<rparr>)
         \<lparr>Header = [], Body = [(''hello'', None), ('' world'', Some EOF)]\<rparr> empty_world
       = Inr (empty_world\<lparr>files := [''out.txt'' \<mapsto> Regular ''hello world'']\<rparr>)"
  using unlimited_stream_copies_body [where args = no_flags
          and res = "\<lparr>Header = [], Body = [(''hello'', None), ('' world'', Some EOF)]\<rparr>"
          and w = empty_world]
        unlimited_stream_copies_body [where args = "no_flags\<lparr>OutputFile := Some ''out.txt''\<rparr>"
          and res = "\<lparr>Header = [], Body = [(''hello'', None), ('' world'', Some EOF)]\<rparr>"
          and name = "''out.txt''" and w = empty_world]
  by (simp add: no_flags_def fits_buffer_def never_fails_def empty_world_def)



text \<open>
  Claim C10. With a maximum download size \<open>m \<ge> 0\<close>, the counter \<open>total\<close> is at
  most \<open>m\<close> after every pass through the loop, for every reader that keeps to the
  buffer and whatever becomes of the writes. While no more than \<open>2^63\<close> bytes are read
  the counter is the number of bytes written: on standard output, the output has grown
  by exactly \<open>total\<close> after every pass.
\<close>

theorem total_never_exceeds_limit:
  assumes "MaxDownload args \<noteq> None" and "0 \<le> MaxDownloadBytes args" and "fits_buffer rds"
  shows "list_all (\<lambda>s. total_bytes s \<le> MaxDownloadBytes args)
           (fst (stream_trace args rds (initial args w)))
    \<and> (OutputStream args = Some Stdout \<and> int (length (concat (map fst rds))) < 2 ^ 63
         \<longrightarrow> list_all (\<lambda>s. int (length (stdout (env s))) = int (length (stdout w)) + total_bytes s)
               (fst (stream_trace args rds (initial args w))))"
proof -
  have "list_all (\<lambda>s. total_bytes s \<le> MaxDownloadBytes args \<and> 0 \<le> nbytes s \<and> nbytes s \<le> 1024)
          (fst (stream_trace args rds (initial args w)))"
    using assms by (intro trace_invariant) (simp_all add: initial_def)
  then have a: "list_all (\<lambda>s. total_bytes s \<le> MaxDownloadBytes args)
           (fst (stream_trace args rds (initial args w)))"
    by (simp add: list_all_iff)
  have b: "list_all (\<lambda>s. int (length (stdout (env s))) = int (length (stdout w)) + total_bytes s)
               (fst (stream_trace args rds (initial args w)))"
    if "OutputStream args = Some Stdout" "int (length (concat (map fst rds))) < 2 ^ 63"
    using trace_counts [OF assms(1,3), of "initial args w"] assms(2) that
    by (simp add: initial_def)
  from a b show ?thesis by blast
qed

theorem total_never_exceeds_limit_witness:
  "MaxDownload (no_flags\<lparr>OutputStream := Some Stdout, MaxDownload := Some ''7'',
                         MaxDownloadBytes := 7\<rparr>) \<noteq> None
   \<and> (0::int) \<le> 7
   \<and> fits_buffer [(''hello'', None), ('' world'', Some EOF)]
   \<and> int (length (concat (map fst
          [(''hello'', None), ('' world'', Some EOF :: read_error option)]))) < 2 ^ 63
   \<and> list_all (\<lambda>s. total_bytes s \<le> 7)
        (fst (stream_trace
              (no_flags\<lparr>OutputStream := Some Stdout, MaxDownload := Some ''7'',
                         MaxDownloadBytes := 7\<rparr>)
              [(''hello'', None), ('' world'', Some EOF)]
              (initial (no_flags\<lparr>OutputStream := Some Stdout, MaxDownload := Some ''7'',
                         MaxDownloadBytes := 7\<rparr>) empty_world)))
   \<and> list_all (\<lambda>s. int (length (stdout (env s))) = total_bytes s)
        (fst (stream_trace
              (no_flags\<lparr>OutputStream := Some Stdout, MaxDownload := Some ''7'',
                         MaxDownloadBytes := 7\<rparr>)
              [(''hello'', None), ('' world'', Some EOF)]
              (initial (no_flags\<lparr>OutputStream := Some Stdout, MaxDownload := Some ''7'',
                         MaxDownloadBytes := 7\<rparr>) empty_world)))
   \<and> map total_bytes
        (fst (stream_trace
              (no_flags\<lparr>OutputStream := Some Stdout, MaxDownload := Some ''7'',
                         MaxDownloadBytes := 7\<rparr>)
              [(''hello'', None), ('' world'', Some EOF)]
              (initial (no_flags\<lparr>OutputStream := Some Stdout, MaxDownload := Some ''7'',
                         MaxDownloadBytes := 7\<rparr>) empty_world))) = [5, 7]"
proof -
  let ?a = "no_flags\<lparr>OutputStream := Some Stdout, MaxDownload := Some ''7'',
                         MaxDownloadBytes := 7\<rparr>"
  let ?rds = "[(''hello'', None), ('' world'', Some EOF :: read_error option)]"
  have f: "fits_buffer ?rds" by (simp add: fits_buffer_def)
  have v: "map total_bytes (fst (stream_trace ?a ?rds (initial ?a empty_world))) = [5, 7]"
    by (simp add: iteration_def initial_def Write_def int64_def empty_world_def no_flags_def)
  from total_never_exceeds_limit [of ?a ?rds empty_world, OF _ _ f] v f show ?thesis
    by (simp add: empty_world_def)
qed

end
